theory Spec2Isabelle
  imports Main
begin

section \<open>Python text, bytes and exceptions\<close>

text \<open>
  A Python \<open>str\<close> is a sequence of Unicode code points, a \<open>bytes\<close> value a sequence
  of 8-bit values. Code points are natural numbers; a byte is an Isabelle \<open>char\<close>
  (an 8-bit value). \<open>str ''...''\<close> is the text with the ASCII characters written.
\<close>

type_synonym pystr = "nat list"
type_synonym bytes = "char list"

abbreviation str :: "string \<Rightarrow> pystr" where
  "str s \<equiv> map of_char s"

text \<open>
  The exceptions the two programs tell apart in their handlers, those the library calls
  of the examples raise, and \<open>OtherError\<close> for any other subclass of \<open>Exception\<close>.
\<close>

datatype py_exception =
  BadZipFile | UnicodeDecodeError | UnicodeEncodeError | JSONDecodeError | RecursionError
| OSError | OtherError

subsection \<open>The string methods the programs call\<close>

fun startswith :: "pystr \<Rightarrow> pystr \<Rightarrow> bool" where
  "startswith s [] = True"
| "startswith [] (c # sub) = False"
| "startswith (d # s) (c # sub) = (d = c \<and> startswith s sub)"

fun find_from :: "pystr \<Rightarrow> pystr \<Rightarrow> nat \<Rightarrow> nat option" where
  "find_from [] sub i = (if sub = [] then Some i else None)"
| "find_from (c # s) sub i =
     (if startswith (c # s) sub then Some i else find_from s sub (Suc i))"

text \<open>\<open>s.find(sub, start)\<close>: the lowest index from \<open>start\<close> on where \<open>sub\<close> occurs;
  \<open>None\<close> is Python's \<open>-1\<close>.\<close>

definition py_find :: "pystr \<Rightarrow> pystr \<Rightarrow> nat \<Rightarrow> nat option" where
  "py_find s sub start =
     (if start \<le> length s then find_from (drop start s) sub start else None)"

text \<open>\<open>s[start:end]\<close> for indices that are not negative.\<close>

definition py_slice :: "pystr \<Rightarrow> nat \<Rightarrow> nat \<Rightarrow> pystr" where
  "py_slice s start end = take (end - start) (drop start s)"

text \<open>\<open>str.isspace\<close> of one code point: the Unicode white space of CPython.\<close>

definition py_isspace :: "nat \<Rightarrow> bool" where
  "py_isspace c =
     ((9 \<le> c \<and> c \<le> 13) \<or> (28 \<le> c \<and> c \<le> 32) \<or> c = 133 \<or> c = 160 \<or> c = 5760 \<or>
      (8192 \<le> c \<and> c \<le> 8202) \<or> c = 8232 \<or> c = 8233 \<or> c = 8239 \<or> c = 8287 \<or>
      c = 12288)"

definition py_strip :: "pystr \<Rightarrow> pystr" where
  "py_strip s = rev (dropWhile py_isspace (rev (dropWhile py_isspace s)))"

text \<open>\<open>s.replace(old, new)\<close>: every occurrence of \<open>old\<close>, found from left to right
  without overlap, becomes \<open>new\<close>.\<close>

function py_replace :: "pystr \<Rightarrow> pystr \<Rightarrow> pystr \<Rightarrow> pystr" where
  "py_replace [] old new = (if old = [] then new else [])"
| "py_replace (c # s) old new =
     (if old = [] then new @ c # py_replace s old new
      else if startswith (c # s) old then new @ py_replace (drop (length old) (c # s)) old new
      else c # py_replace s old new)"
  by pat_completeness auto
termination
  by (relation "measure (\<lambda>(s, old, new). length s)") auto

text \<open>\<open>s.split(sep)\<close> for a separator of one character.\<close>

fun py_split :: "nat \<Rightarrow> pystr \<Rightarrow> pystr list" where
  "py_split sep [] = [[]]"
| "py_split sep (c # s) =
     (if c = sep then [] # py_split sep s
      else (case py_split sep s of [] \<Rightarrow> [[c]] | p # ps \<Rightarrow> (c # p) # ps))"

text \<open>\<open>os.path.basename\<close> and the root that \<open>os.path.splitext\<close> returns, on POSIX
  paths: the extension starts at the last dot of the name, unless only dots precede it.\<close>

definition basename :: "pystr \<Rightarrow> pystr" where
  "basename p = last (py_split 47 p)"

definition splitext_root :: "pystr \<Rightarrow> pystr" where
  "splitext_root name =
     (let stem = rev (drop 1 (dropWhile (\<lambda>c. c \<noteq> 46) (rev name)))
      in if 46 \<in> set name \<and> list_ex (\<lambda>c. c \<noteq> 46) stem then stem else name)"

subsection \<open>UTF-8\<close>

text \<open>\<open>bytes.decode('utf-8')\<close> in strict mode: \<open>None\<close> is \<open>UnicodeDecodeError\<close>. Overlong
  forms, surrogates and values above U+10FFFF are refused.\<close>

definition cont :: "char \<Rightarrow> bool" where
  "cont b = (128 \<le> (of_char b :: nat) \<and> (of_char b :: nat) < 192)"

definition low6 :: "char \<Rightarrow> nat" where
  "low6 b = of_char b - 128"

fun utf8_decode :: "bytes \<Rightarrow> pystr option" where
  "utf8_decode [] = Some []"
| "utf8_decode (b0 # bs) =
     (let n0 = (of_char b0 :: nat) in
      if n0 < 128 then map_option ((#) n0) (utf8_decode bs)
      else if 194 \<le> n0 \<and> n0 < 224 then
        (case bs of
           b1 # r \<Rightarrow>
             if cont b1
             then map_option ((#) ((n0 - 192) * 64 + low6 b1)) (utf8_decode r)
             else None
         | _ \<Rightarrow> None)
      else if 224 \<le> n0 \<and> n0 < 240 then
        (case bs of
           b1 # b2 # r \<Rightarrow>
             if cont b1 \<and> cont b2 \<and>
                (if n0 = 224 then 160 \<le> (of_char b1 :: nat) else True) \<and>
                (if n0 = 237 then (of_char b1 :: nat) < 160 else True)
             then map_option ((#) ((n0 - 224) * 4096 + low6 b1 * 64 + low6 b2)) (utf8_decode r)
             else None
         | _ \<Rightarrow> None)
      else if 240 \<le> n0 \<and> n0 < 245 then
        (case bs of
           b1 # b2 # b3 # r \<Rightarrow>
             if cont b1 \<and> cont b2 \<and> cont b3 \<and>
                (if n0 = 240 then 144 \<le> (of_char b1 :: nat) else True) \<and>
                (if n0 = 244 then (of_char b1 :: nat) < 144 else True)
             then map_option
                    ((#) ((n0 - 240) * 262144 + low6 b1 * 4096 + low6 b2 * 64 + low6 b3))
                    (utf8_decode r)
             else None
         | _ \<Rightarrow> None)
      else None)"

text \<open>\<open>str.encode('utf-8')\<close>: \<open>None\<close> is \<open>UnicodeEncodeError\<close>, raised for a surrogate
  (a Python \<open>str\<close> holds no code point above U+10FFFF).\<close>

definition encode_char :: "nat \<Rightarrow> bytes option" where
  "encode_char c =
     (if c < 128 then Some [char_of c]
      else if c < 2048 then Some [char_of (192 + c div 64), char_of (128 + c mod 64)]
      else if 55296 \<le> c \<and> c < 57344 then None
      else if c < 65536 then
        Some [char_of (224 + c div 4096), char_of (128 + c div 64 mod 64),
              char_of (128 + c mod 64)]
      else if c < 1114112 then
        Some [char_of (240 + c div 262144), char_of (128 + c div 4096 mod 64),
              char_of (128 + c div 64 mod 64), char_of (128 + c mod 64)]
      else None)"

fun utf8_encode :: "pystr \<Rightarrow> bytes option" where
  "utf8_encode [] = Some []"
| "utf8_encode (c # s) =
     (case encode_char c of
        None \<Rightarrow> None
      | Some bs \<Rightarrow> map_option ((@) bs) (utf8_encode s))"

subsection \<open>The regular expressions of the two locators\<close>

text \<open>
  Both patterns are built from literals, one alternative and \<open>[^/]+\<close>, are compiled
  with \<open>re.IGNORECASE\<close>, end in \<open>$\<close> and are used with \<open>match\<close>, which anchors at the
  start of the path. \<open>ends_after r s\<close> lists what is left of \<open>s\<close> after each prefix
  that \<open>r\<close> matches; \<open>$\<close> then holds where nothing is left, or only a final newline
  (the rule of Python's \<open>re\<close> without \<open>MULTILINE\<close>).
\<close>

datatype regex = Eps | Lit nat | NotSlashPlus | Seq regex regex | Alt regex regex

definition ascii_lower :: "nat \<Rightarrow> nat" where
  "ascii_lower c = (if 65 \<le> c \<and> c \<le> 90 then c + 32 else c)"

text \<open>A literal ASCII character \<open>c\<close> of an \<open>IGNORECASE\<close> pattern against a character
  \<open>d\<close> of the path: both cases of the letter, and the code points that Python's \<open>re\<close>
  folds onto \<open>s\<close>, \<open>k\<close> and \<open>i\<close> (U+017F, U+212A, U+0130, U+0131).\<close>

definition ignorecase_eq :: "nat \<Rightarrow> nat \<Rightarrow> bool" where
  "ignorecase_eq c d =
     (ascii_lower d = ascii_lower c \<or> (ascii_lower c = 115 \<and> d = 383) \<or>
      (ascii_lower c = 107 \<and> d = 8490) \<or> (ascii_lower c = 105 \<and> (d = 304 \<or> d = 305)))"

fun after_segment :: "pystr \<Rightarrow> pystr list" where
  "after_segment [] = []"
| "after_segment (d # t) = (if d = 47 then [] else t # after_segment t)"

fun ends_after :: "regex \<Rightarrow> pystr \<Rightarrow> pystr list" where
  "ends_after Eps s = [s]"
| "ends_after (Lit c) s =
     (case s of [] \<Rightarrow> [] | d # t \<Rightarrow> if ignorecase_eq c d then [t] else [])"
| "ends_after NotSlashPlus s = after_segment s"
| "ends_after (Seq a b) s = concat (map (ends_after b) (ends_after a s))"
| "ends_after (Alt a b) s = ends_after a s @ ends_after b s"

definition re_match :: "regex \<Rightarrow> pystr \<Rightarrow> bool" where
  "re_match r s = list_ex (\<lambda>t. t = [] \<or> t = [10]) (ends_after r s)"

definition lit :: "string \<Rightarrow> regex" where
  "lit s = foldr (\<lambda>c r. Seq (Lit (of_char c)) r) s Eps"

text \<open>tranlator.py, line 29: \<open>(assets|data)/[^/]+/lang/[^/]+\.json$\<close>.\<close>

definition lang_pattern :: regex where
  "lang_pattern =
     Seq (Alt (lit ''assets'') (lit ''data''))
       (Seq (lit ''/'') (Seq NotSlashPlus (Seq (lit ''/lang/'')
         (Seq NotSlashPlus (lit ''.json'')))))"

text \<open>translator_advance.py, line 27: \<open>(assets|data)/[^/]+/lang/en_us\.json$\<close>.\<close>

definition en_us_pattern :: regex where
  "en_us_pattern =
     Seq (Alt (lit ''assets'') (lit ''data''))
       (Seq (lit ''/'') (Seq NotSlashPlus (lit ''/lang/en_us.json'')))"

section \<open>JSON values and the standard library\<close>

text \<open>
  What \<open>json.loads\<close> returns. A Python float is a dyadic number, an infinity or a NaN;
  a \<open>dict\<close> keeps its items in insertion order.
\<close>

datatype pyfloat = Finite int int | PosInf | NegInf | NaN

datatype json =
  JNull | JBool bool | JInt int | JFloat pyfloat | JString pystr
| JArray "json list" | JObject "(pystr \<times> json) list"

text \<open>The truth value Python gives a value in \<open>if translated_content:\<close>.\<close>

fun truthy :: "json \<Rightarrow> bool" where
  "truthy JNull = False"
| "truthy (JBool b) = b"
| "truthy (JInt n) = (n \<noteq> 0)"
| "truthy (JFloat x) = (case x of Finite m e \<Rightarrow> m \<noteq> 0 | _ \<Rightarrow> True)"
| "truthy (JString s) = (s \<noteq> [])"
| "truthy (JArray xs) = (xs \<noteq> [])"
| "truthy (JObject kvs) = (kvs \<noteq> [])"

text \<open>The key set of a mapping (no keys for a value that is not a mapping).\<close>

fun keys :: "json \<Rightarrow> pystr set" where
  "keys (JObject kvs) = set (map fst kvs)"
| "keys _ = {}"

section \<open>Archives on disk\<close>

text \<open>
  A member of an archive has the name and size its header records and either the bytes
  \<open>ZipFile.read\<close> returns or the exception it raises (a bad checksum, an encrypted or
  unsupported member). A file is an archive (possibly after some leading bytes, which
  \<open>zipfile\<close> accepts) or is not one. Names are as \<open>zipfile\<close> reports them. The disk maps
  a path to its file.
\<close>

datatype entry_data = Data bytes | Unreadable py_exception

record zip_info =
  filename :: pystr
  file_size :: nat
  stored :: entry_data

datatype disk_file = NotZip bytes | Zip bytes "zip_info list"

type_synonym disk = "pystr \<Rightarrow> disk_file option"

text \<open>\<open>zipfile.ZipFile(jar_path, 'r')\<close> and its \<open>filelist\<close>.\<close>

definition zip_open_read :: "disk \<Rightarrow> pystr \<Rightarrow> py_exception + zip_info list" where
  "zip_open_read d jar_path =
     (case d jar_path of
        None \<Rightarrow> Inl OSError
      | Some (NotZip b) \<Rightarrow> Inl BadZipFile
      | Some (Zip pre filelist) \<Rightarrow> Inr filelist)"

definition zip_read :: "zip_info \<Rightarrow> py_exception + bytes" where
  "zip_read file_info =
     (case stored file_info of Data b \<Rightarrow> Inr b | Unreadable e \<Rightarrow> Inl e)"

text \<open>The members of a file, as \<open>filelist\<close> lists them.\<close>

fun entries_of :: "disk_file \<Rightarrow> zip_info list" where
  "entries_of (NotZip b) = []"
| "entries_of (Zip pre filelist) = filelist"

text \<open>\<open>ZipFile(path, 'a')\<close> followed by \<open>writestr(name, data)\<close>: the member is added
  after the existing ones; to a file that is no archive, a new archive is appended.\<close>

fun zip_append :: "disk_file \<Rightarrow> pystr \<Rightarrow> bytes \<Rightarrow> disk_file" where
  "zip_append (Zip pre filelist) name data =
     Zip pre (filelist @ [\<lparr>filename = name, file_size = length data, stored = Data data\<rparr>])"
| "zip_append (NotZip b) name data =
     Zip b [\<lparr>filename = name, file_size = length data, stored = Data data\<rparr>]"

section \<open>The world outside the programs\<close>

text \<open>What the translation boundary answers: the call raises, or the response's \<open>text\<close>
  is \<open>None\<close> or a string.\<close>

datatype api_reply = ApiRaises py_exception | ApiText "pystr option"

text \<open>The calls in the \<open>try\<close> block of \<open>save_translated_json_to_jar\<close> that can
  fail for reasons outside the program, in the order of the source:
  \<open>TemporaryDirectory()\<close>, \<open>copy2\<close> to the temporary file, \<open>ZipFile(..., 'a')\<close>,
  \<open>writestr\<close>, \<open>copy2\<close> to the backup, the \<open>print\<close> after it, \<open>shutil.move\<close>, the exit
  of the \<open>TemporaryDirectory\<close> block (which removes the directory) and the last \<open>print\<close>.\<close>

datatype save_step =
  MakeTempDir | CopyToTemp | OpenAppend | WriteStr | CopyBackup | PrintBackup | MoveBack
| Cleanup | PrintDone

text \<open>
  The world outside the two programs is a parameter of the model, so that every theorem
  holds whatever these compute:
  \<^item> \<open>json_loads\<close>, \<open>json_dumps\<close>: the \<open>json\<close> module (\<open>Inl\<close> is the exception raised;
    \<open>json_dumps\<close> is called with \<open>ensure_ascii=False, indent=2\<close>);
  \<^item> \<open>instructions\<close>: the fixed prose of the prompt that precedes the serialized mapping;
  \<^item> \<open>generate_content k prompt\<close>: the reply of the translation service to the request
    made for the \<open>k\<close>-th entry of a run;
  \<^item> \<open>save_raises k step\<close>: whether that call raises while the \<open>k\<close>-th entry of a run
    is saved;
  \<^item> \<open>save_leaves k step\<close>: what a \<open>copy2\<close> or \<open>shutil.move\<close> that raises has left at its
    destination: \<open>None\<close> when it had not written yet, and otherwise the file found there
    (\<open>shutil.move\<close> copies and then unlinks when it cannot rename, so it can fail after
    a part, or all, of the copy was written).
\<close>

record env =
  json_loads :: "pystr \<Rightarrow> py_exception + json"
  json_dumps :: "json \<Rightarrow> py_exception + pystr"
  instructions :: pystr
  generate_content :: "nat \<Rightarrow> pystr \<Rightarrow> api_reply"
  save_raises :: "nat \<Rightarrow> save_step \<Rightarrow> bool"
  save_leaves :: "nat \<Rightarrow> save_step \<Rightarrow> disk_file option"

section \<open>Archive entry locator and resource extractor\<close>

text \<open>\<open>extract_mod_id\<close> and \<open>extract_lang_code\<close> are the same in both programs.\<close>

definition extract_mod_id :: "pystr \<Rightarrow> pystr" where
  "extract_mod_id file_path =
     (let parts = py_split 47 file_path
      in if 3 \<le> length parts \<and> parts ! 1 \<noteq> [] then parts ! 1 else str ''unknown'')"

definition extract_lang_code :: "pystr \<Rightarrow> pystr" where
  "extract_lang_code file_path = splitext_root (basename file_path)"

text \<open>The messages the locator prints: the warning of the \<open>BadZipFile\<close> handler and the
  error of the \<open>Exception\<close> handler.\<close>

datatype message = Warning pystr | Error pystr py_exception

definition report :: "pystr \<Rightarrow> py_exception \<Rightarrow> message" where
  "report jar_path e = (if e = BadZipFile then Warning jar_path else Error jar_path e)"

text \<open>The first two statements of the inner \<open>try\<close>:
  \<open>content = jar.read(file_info).decode('utf-8'); json.loads(content)\<close>.\<close>

definition read_json :: "env \<Rightarrow> zip_info \<Rightarrow> py_exception + json" where
  "read_json env file_info =
     (case zip_read file_info of
        Inl e \<Rightarrow> Inl e
      | Inr b \<Rightarrow>
          (case utf8_decode b of
             None \<Rightarrow> Inl UnicodeDecodeError
           | Some content \<Rightarrow> json_loads env content))"

subsection \<open>translator\_advance.py\<close>

record lang_file =
  path :: pystr
  content :: json
  mod_id :: pystr
  lang_code :: pystr

text \<open>The loop over \<open>jar.filelist\<close> (lines 23 to 41). It returns the list built so far
  and the exception that left the loop, if one did: the inner handler takes
  \<open>UnicodeDecodeError\<close> and \<open>JSONDecodeError\<close> only.\<close>

fun ModTranslator_scan ::
  "env \<Rightarrow> zip_info list \<Rightarrow> lang_file list \<Rightarrow> lang_file list \<times> py_exception option" where
  "ModTranslator_scan env [] language_files = (language_files, None)"
| "ModTranslator_scan env (file_info # rest) language_files =
     (let file_path = filename file_info in
      if re_match en_us_pattern file_path then
        (case read_json env file_info of
           Inr json_data \<Rightarrow>
             ModTranslator_scan env rest
               (language_files @
                [\<lparr>path = file_path, content = json_data,
                  mod_id = extract_mod_id file_path,
                  lang_code = extract_lang_code file_path\<rparr>])
         | Inl e \<Rightarrow>
             if e = UnicodeDecodeError \<or> e = JSONDecodeError
             then ModTranslator_scan env rest language_files
             else (language_files, Some e))
      else ModTranslator_scan env rest language_files)"

definition ModTranslator_find_language_files_in_jar ::
  "env \<Rightarrow> disk \<Rightarrow> pystr \<Rightarrow> lang_file list \<times> message list" where
  "ModTranslator_find_language_files_in_jar env d jar_path =
     (case zip_open_read d jar_path of
        Inl e \<Rightarrow> ([], [report jar_path e])
      | Inr filelist \<Rightarrow>
          (case ModTranslator_scan env filelist [] of
             (language_files, None) \<Rightarrow> (language_files, [])
           | (language_files, Some e) \<Rightarrow> (language_files, [report jar_path e])))"

subsection \<open>tranlator.py\<close>

record lang_info =
  info_path :: pystr
  info_size :: nat
  info_mod_id :: pystr
  info_lang_code :: pystr

fun scan_filelist ::
  "env \<Rightarrow> zip_info list \<Rightarrow> lang_info list \<Rightarrow> lang_info list \<times> py_exception option" where
  "scan_filelist env [] language_files = (language_files, None)"
| "scan_filelist env (file_info # rest) language_files =
     (let file_path = filename file_info in
      if re_match lang_pattern file_path then
        (case read_json env file_info of
           Inr json_data \<Rightarrow>
             scan_filelist env rest
               (language_files @
                [\<lparr>info_path = file_path, info_size = file_size file_info,
                  info_mod_id = extract_mod_id file_path,
                  info_lang_code = extract_lang_code file_path\<rparr>])
         | Inl e \<Rightarrow>
             if e = UnicodeDecodeError \<or> e = JSONDecodeError
             then scan_filelist env rest language_files
             else (language_files, Some e))
      else scan_filelist env rest language_files)"

text \<open>The archive is opened for reading only, so the disk the function leaves is the
  disk it was given; it is returned to make that a statement about the function.\<close>

definition find_language_files_in_jar ::
  "env \<Rightarrow> disk \<Rightarrow> pystr \<Rightarrow> (lang_info list \<times> message list) \<times> disk" where
  "find_language_files_in_jar env d jar_path =
     (case zip_open_read d jar_path of
        Inl e \<Rightarrow> (([], [report jar_path e]), d)
      | Inr filelist \<Rightarrow>
          (case scan_filelist env filelist [] of
             (language_files, None) \<Rightarrow> ((language_files, []), d)
           | (language_files, Some e) \<Rightarrow> ((language_files, [report jar_path e]), d)))"

section \<open>Translation orchestrator\<close>

text \<open>What a run is observed to do: a request to the translation service (with its
  prompt) and a call of \<open>time.sleep\<close> (with its duration in seconds).\<close>

datatype event = Request pystr | Sleep nat

text \<open>Lines 114 to 123 of translator\_advance.py, the removal of a code fence:
  the text after the first \<open>```json\<close> up to the next \<open>```\<close>, else the text after the
  first \<open>```\<close> up to the next one, stripped; the whole text when no closing fence
  follows.\<close>

definition strip_code_fence :: "pystr \<Rightarrow> pystr" where
  "strip_code_fence translated_text =
     (case py_find translated_text (str ''```json'') 0 of
        Some i \<Rightarrow>
          (let start = i + 7 in
           case py_find translated_text (str ''```'') start of
             Some end \<Rightarrow> py_strip (py_slice translated_text start end)
           | None \<Rightarrow> translated_text)
      | None \<Rightarrow>
          (case py_find translated_text (str ''```'') 0 of
             Some i \<Rightarrow>
               (let start = i + 3 in
                case py_find translated_text (str ''```'') start of
                  Some end \<Rightarrow> py_strip (py_slice translated_text start end)
                | None \<Rightarrow> translated_text)
           | None \<Rightarrow> translated_text))"

text \<open>\<open>translate_json_with_gemini\<close> for the \<open>k\<close>-th entry of a run: the result
  (\<open>None\<close> as in Python) and the request made, if the service was called. Every
  exception is caught: \<open>JSONDecodeError\<close> by the inner handler, any other by the outer
  one, and both return \<open>None\<close>.\<close>

definition translate_json_with_gemini ::
  "env \<Rightarrow> nat \<Rightarrow> json \<Rightarrow> json option \<times> event list" where
  "translate_json_with_gemini env k json_data =
     (case json_dumps env json_data of
        Inl e \<Rightarrow> (None, [])
      | Inr json_str \<Rightarrow>
          (let prompt = instructions env @ json_str in
           case generate_content env k prompt of
             ApiRaises e \<Rightarrow> (None, [Request prompt])
           | ApiText None \<Rightarrow> (None, [Request prompt])
           | ApiText (Some translated_text) \<Rightarrow>
               if translated_text = [] then (None, [Request prompt])
               else
                 (case json_loads env (strip_code_fence translated_text) of
                    Inr translated_json \<Rightarrow> (Some translated_json, [Request prompt])
                  | Inl e \<Rightarrow> (None, [Request prompt]))))"

section \<open>Archive mutator\<close>

text \<open>
  \<open>save_translated_json_to_jar\<close>. The temporary directory is fresh and private, so the
  copy in it is a local value and not a path of the disk. \<open>raises\<close> tells which of the
  calls fail and \<open>leaves\<close> what a failing copy or move has written; a missing archive
  makes \<open>copy2\<close> fail, a surrogate makes \<open>encode\<close> fail. Every exception is caught and
  gives \<open>False\<close>: also one raised after the move, by the exit of the
  \<open>TemporaryDirectory\<close> block or by the \<open>print\<close> before \<open>return True\<close>, which are inside
  the \<open>try\<close>.
\<close>

definition save_translated_json_to_jar ::
  "env \<Rightarrow> (save_step \<Rightarrow> bool) \<Rightarrow> (save_step \<Rightarrow> disk_file option) \<Rightarrow> disk \<Rightarrow> pystr \<Rightarrow>
   lang_file \<Rightarrow> json \<Rightarrow> bool \<times> disk" where
  "save_translated_json_to_jar env raises leaves d jar_path original_lang_file
     translated_content =
     (let original_path = path original_lang_file;
          ja_jp_path = py_replace original_path (str ''en_us.json'') (str ''ja_jp.json'')
      in
      if raises MakeTempDir then (False, d)
      else
        (case d jar_path of
           None \<Rightarrow> (False, d)
         | Some jar \<Rightarrow>
             if raises CopyToTemp \<or> raises OpenAppend then (False, d)
             else
               (case json_dumps env translated_content of
                  Inl e \<Rightarrow> (False, d)
                | Inr translated_json_str \<Rightarrow>
                    (case utf8_encode translated_json_str of
                       None \<Rightarrow> (False, d)
                     | Some data \<Rightarrow>
                         if raises WriteStr then (False, d)
                         else
                           (let temp_jar = zip_append jar ja_jp_path data;
                                backup_path = jar_path @ str ''.backup''
                            in
                            if d backup_path = None \<and> raises CopyBackup then
                              (case leaves CopyBackup of
                                 None \<Rightarrow> (False, d)
                               | Some part \<Rightarrow> (False, d(backup_path \<mapsto> part)))
                            else
                              (let d1 = (if d backup_path = None
                                         then d(backup_path \<mapsto> jar) else d)
                               in
                               if d backup_path = None \<and> raises PrintBackup then (False, d1)
                               else if raises MoveBack then
                                 (case leaves MoveBack of
                                    None \<Rightarrow> (False, d1)
                                  | Some part \<Rightarrow> (False, d1(jar_path \<mapsto> part)))
                               else
                                 (let d2 = d1(jar_path \<mapsto> temp_jar) in
                                  if raises Cleanup \<or> raises PrintDone then (False, d2)
                                  else (True, d2))))))))"

section \<open>The translation run\<close>

text \<open>The translator object: \<open>__init__\<close> sets the delay to one second.\<close>

record ModTranslator =
  translation_delay :: nat

definition ModTranslator_init :: ModTranslator where
  "ModTranslator_init = \<lparr>translation_delay = 1\<rparr>"

record run =
  files :: disk
  total_files :: nat
  successful_translations :: nat
  events :: "event list"

text \<open>Line 232: \<open>sum(len(self.find_language_files_in_jar(str(jf))) for jf in jar_files)\<close>.\<close>

definition count_language_files :: "env \<Rightarrow> disk \<Rightarrow> pystr list \<Rightarrow> nat" where
  "count_language_files env d jar_files =
     sum_list (map (\<lambda>jf. length (fst (ModTranslator_find_language_files_in_jar env d jf)))
       jar_files)"

text \<open>The body of the loop over \<open>language_files\<close> (lines 212 to 234).\<close>

definition translate_lang_file ::
  "env \<Rightarrow> ModTranslator \<Rightarrow> pystr list \<Rightarrow> pystr \<Rightarrow> run \<Rightarrow> lang_file \<Rightarrow> run" where
  "translate_lang_file env self jar_files jar_file r lang_file =
     (let k = total_files r + 1;
          translated = translate_json_with_gemini env k (content lang_file);
          r1 = r\<lparr>total_files := k, events := events r @ snd translated\<rparr>;
          r2 =
            (case fst translated of
               None \<Rightarrow> r1
             | Some translated_content \<Rightarrow>
                 if truthy translated_content then
                   (case save_translated_json_to_jar env (save_raises env k)
                           (save_leaves env k) (files r1) jar_file lang_file
                           translated_content of
                      (True, d') \<Rightarrow>
                        r1\<lparr>files := d',
                           successful_translations := successful_translations r1 + 1\<rparr>
                    | (False, d') \<Rightarrow> r1\<lparr>files := d'\<rparr>)
                 else r1)
      in
      if total_files r2 < count_language_files env (files r2) jar_files
      then r2\<lparr>events := events r2 @ [Sleep (translation_delay self)]\<rparr>
      else r2)"

text \<open>The loop over \<open>jar_files\<close> (lines 201 to 234): an archive without language files
  is skipped.\<close>

fun translate_jars ::
  "env \<Rightarrow> ModTranslator \<Rightarrow> pystr list \<Rightarrow> pystr list \<Rightarrow> run \<Rightarrow> run" where
  "translate_jars env self jar_files [] r = r"
| "translate_jars env self jar_files (jar_file # rest) r =
     (let language_files =
            fst (ModTranslator_find_language_files_in_jar env (files r) jar_file)
      in
      if language_files = [] then translate_jars env self jar_files rest r
      else translate_jars env self jar_files rest
             (foldl (translate_lang_file env self jar_files jar_file) r language_files))"

text \<open>\<open>translate_mod_files\<close>. \<open>directory\<close> is \<open>None\<close> when the directory does not exist,
  and otherwise the list \<open>directory.glob("*.jar")\<close> yields. The counters start at 0.\<close>

definition initial_run :: "disk \<Rightarrow> run" where
  "initial_run d = \<lparr>files = d, total_files = 0, successful_translations = 0, events = []\<rparr>"

definition translate_mod_files ::
  "env \<Rightarrow> ModTranslator \<Rightarrow> pystr list option \<Rightarrow> disk \<Rightarrow> run" where
  "translate_mod_files env self directory d =
     (case directory of
        None \<Rightarrow> initial_run d
      | Some jar_files \<Rightarrow>
          if jar_files = [] then initial_run d
          else translate_jars env self jar_files jar_files (initial_run d))"

section \<open>The discovery scan of tranlator.py\<close>

text \<open>\<open>all_results[str(jar_file)] = language_files\<close> on a dictionary kept as the list
  of its items.\<close>

fun dict_set :: "('k \<times> 'v) list \<Rightarrow> 'k \<Rightarrow> 'v \<Rightarrow> ('k \<times> 'v) list" where
  "dict_set [] k v = [(k, v)]"
| "dict_set ((k', v') # kvs) k v =
     (if k' = k then (k, v) # kvs else (k', v') # dict_set kvs k v)"

fun scan_jars ::
  "env \<Rightarrow> pystr list \<Rightarrow> (pystr \<times> lang_info list) list \<Rightarrow> disk \<Rightarrow>
   (pystr \<times> lang_info list) list \<times> disk" where
  "scan_jars env [] all_results d = (all_results, d)"
| "scan_jars env (jar_file # rest) all_results d =
     (case find_language_files_in_jar env d jar_file of
        ((language_files, msgs), d') \<Rightarrow>
          if language_files \<noteq> [] then
            scan_jars env rest (dict_set all_results jar_file language_files) d'
          else scan_jars env rest all_results d')"

definition scan_directory_for_mods ::
  "env \<Rightarrow> pystr list option \<Rightarrow> disk \<Rightarrow> (pystr \<times> lang_info list) list \<times> disk" where
  "scan_directory_for_mods env directory d =
     (case directory of
        None \<Rightarrow> ([], d)
      | Some jar_files \<Rightarrow> if jar_files = [] then ([], d) else scan_jars env jar_files [] d)"

text \<open>\<open>main\<close> of tranlator.py after the directory was read: the scan, and the report
  file, written when there are results and the answer, stripped and in lower case, is
  \<open>y\<close>. \<open>written\<close> stands for the bytes \<open>json.dump\<close> leaves in the file. Only \<open>Y\<close> and
  \<open>y\<close> have the lower case \<open>y\<close>.\<close>

definition py_lower :: "pystr \<Rightarrow> pystr" where
  "py_lower s = map ascii_lower s"

definition output_file :: pystr where
  "output_file = str ''mod_language_scan_result.json''"

definition main :: "env \<Rightarrow> pystr list option \<Rightarrow> pystr \<Rightarrow> bytes \<Rightarrow> disk \<Rightarrow> disk" where
  "main env directory answer written d =
     (case scan_directory_for_mods env directory d of
        (results, d') \<Rightarrow>
          if results \<noteq> [] then
            (let save_json = py_lower (py_strip answer) in
             if save_json = str ''y'' then d'(output_file \<mapsto> NotZip written) else d')
          else d')"

section \<open>Notions of the specification\<close>

text \<open>
  The payload as the specification words it: when the reply contains a fenced code
  block, the content of the first one, and the whole text otherwise. A fenced block is
  read as Markdown reads it. It runs from the first \<open>```\<close> to the next. When it spans
  several lines, the rest of its opening line is the info string (a language tag, in any
  spelling) and the content starts on the line after; a block on one line has no info
  string.
\<close>

definition block_inner :: "pystr \<Rightarrow> pystr option" where
  "block_inner text =
     (case py_find text (str ''```'') 0 of
        None \<Rightarrow> None
      | Some i \<Rightarrow>
          (case py_find text (str ''```'') (i + 3) of
             None \<Rightarrow> None
           | Some j \<Rightarrow> Some (py_slice text (i + 3) j)))"

definition info_string :: "pystr \<Rightarrow> pystr" where
  "info_string inner = (if 10 \<in> set inner then takeWhile (\<lambda>c. c \<noteq> 10) inner else [])"

definition block_content :: "pystr \<Rightarrow> pystr" where
  "block_content inner =
     (if 10 \<in> set inner then drop 1 (dropWhile (\<lambda>c. c \<noteq> 10) inner) else inner)"

definition first_fenced_block :: "pystr \<Rightarrow> pystr" where
  "first_fenced_block text =
     (case block_inner text of None \<Rightarrow> text | Some inner \<Rightarrow> block_content inner)"






text \<open>Mutations of one archive in sequence, each with its own failing calls: the
  results and the disk at the end.\<close>

fun save_sequence ::
  "env \<Rightarrow> disk \<Rightarrow> pystr \<Rightarrow>
   ((save_step \<Rightarrow> bool) \<times> (save_step \<Rightarrow> disk_file option) \<times> lang_file \<times> json) list \<Rightarrow>
   bool list \<times> disk" where
  "save_sequence env d jar_path [] = ([], d)"
| "save_sequence env d jar_path ((raises, leaves, lf, c) # ms) =
     (case save_translated_json_to_jar env raises leaves d jar_path lf c of
        (ok, d') \<Rightarrow>
          (case save_sequence env d' jar_path ms of (oks, d'') \<Rightarrow> (ok # oks, d'')))"


text \<open>The members of the file at a path (none when there is no file).\<close>

definition members :: "disk \<Rightarrow> pystr \<Rightarrow> zip_info list" where
  "members d jar_path = (case d jar_path of None \<Rightarrow> [] | Some f \<Rightarrow> entries_of f)"

text \<open>The exception with which the bytes of a member fail UTF-8 decoding or JSON
  parsing: \<open>None\<close> for a member that cannot be read, or whose bytes decode and parse.\<close>

definition parse_failure :: "env \<Rightarrow> zip_info \<Rightarrow> py_exception option" where
  "parse_failure env zi =
     (case stored zi of
        Unreadable e \<Rightarrow> None
      | Data b \<Rightarrow>
          (case utf8_decode b of
             None \<Rightarrow> Some UnicodeDecodeError
           | Some text \<Rightarrow>
               (case json_loads env text of Inl e \<Rightarrow> Some e | Inr v \<Rightarrow> None)))"

section \<open>A concrete world for the examples\<close>

text \<open>
  The values of \<open>json.loads\<close> and \<open>json.dumps(..., ensure_ascii=False, indent=2)\<close> on
  the texts and values of the examples; this instance raises everywhere else. The
  service answers every request with \<open>reply\<close>, and no library call fails.
\<close>

definition source_text :: string where
  \<open>source_text = ''{"item.sword": "Sword", "item.bow": "Bow"}''\<close>

definition source_mapping :: json where
  "source_mapping =
     JObject [(str ''item.sword'', JString (str ''Sword'')),
              (str ''item.bow'', JString (str ''Bow''))]"

definition full_mapping :: json where
  "full_mapping =
     JObject [(str ''item.sword'', JString (str ''Ken'')),
              (str ''item.bow'', JString (str ''Yumi''))]"

definition short_mapping :: json where
  "short_mapping = JObject [(str ''item.sword'', JString (str ''Ken''))]"

definition full_reply :: pystr where
  \<open>full_reply = str ''{"item.sword": "Ken", "item.bow": "Yumi"}''\<close>

definition short_reply :: pystr where
  \<open>short_reply = str ''```json'' @ [10] @ str ''{"item.sword": "Ken"}'' @ [10] @ str ''```''\<close>

definition demo_loads :: "pystr \<Rightarrow> py_exception + json" where
  \<open>demo_loads s =
     (if s = str source_text then Inr source_mapping
      else if s = full_reply then Inr full_mapping
      else if s = str ''{"item.sword": "Ken"}'' then Inr short_mapping
      else Inl JSONDecodeError)\<close>

definition source_dump :: pystr where
  \<open>source_dump =
     str ''{'' @ [10] @ str ''  "item.sword": "Sword",'' @ [10] @
     str ''  "item.bow": "Bow"'' @ [10] @ str ''}''\<close>

definition full_dump :: string where
  \<open>full_dump =
     ''{'' @ [CHR 0x0A] @ ''  "item.sword": "Ken",'' @ [CHR 0x0A] @
     ''  "item.bow": "Yumi"'' @ [CHR 0x0A] @ ''}''\<close>

definition short_dump :: string where
  \<open>short_dump = ''{'' @ [CHR 0x0A] @ ''  "item.sword": "Ken"'' @ [CHR 0x0A] @ ''}''\<close>

definition demo_dumps :: "json \<Rightarrow> py_exception + pystr" where
  "demo_dumps v =
     (if v = source_mapping then Inr source_dump
      else if v = full_mapping then Inr (str full_dump)
      else if v = short_mapping then Inr (str short_dump)
      else Inl OtherError)"

definition demo_env :: "pystr \<Rightarrow> env" where
  "demo_env reply =
     \<lparr>json_loads = demo_loads, json_dumps = demo_dumps,
      instructions = str ''Translate the values into Japanese: '',
      generate_content = (\<lambda>k prompt. ApiText (Some reply)),
      save_raises = (\<lambda>k step. False),
      save_leaves = (\<lambda>k step. None)\<rparr>"

text \<open>Members: the reference-language file of the examples, a member whose bytes are
  not UTF-8, one whose text is not JSON, and one whose checksum fails on reading.\<close>

definition en_us_member :: zip_info where
  "en_us_member =
     \<lparr>filename = str ''assets/m1/lang/en_us.json'', file_size = 42,
      stored = Data source_text\<rparr>"

definition latin1_member :: zip_info where
  "latin1_member =
     \<lparr>filename = str ''assets/m2/lang/en_us.json'', file_size = 1,
      stored = Data [CHR 0xFF]\<rparr>"

definition prose_member :: zip_info where
  "prose_member =
     \<lparr>filename = str ''data/m3/lang/en_us.json'', file_size = 5,
      stored = Data ''Sword''\<rparr>"

definition corrupt_member :: zip_info where
  "corrupt_member =
     \<lparr>filename = str ''assets/m4/lang/en_us.json'', file_size = 42,
      stored = Unreadable BadZipFile\<rparr>"

definition upper_member :: zip_info where
  "upper_member =
     \<lparr>filename = str ''assets/foo/lang/EN_US.json'', file_size = 42,
      stored = Data source_text\<rparr>"

definition demo_jar :: pystr where
  "demo_jar = str ''mods/m1.jar''"

definition demo_disk :: "zip_info list \<Rightarrow> disk" where
  "demo_disk filelist = [demo_jar \<mapsto> Zip [] filelist]"

definition en_us_lang_file :: lang_file where
  "en_us_lang_file =
     \<lparr>path = str ''assets/m1/lang/en_us.json'', content = source_mapping,
      mod_id = str ''m1'', lang_code = str ''en_us''\<rparr>"

definition ja_jp_member :: "string \<Rightarrow> zip_info" where
  "ja_jp_member text =
     \<lparr>filename = str ''assets/m1/lang/ja_jp.json'', file_size = length text,
      stored = Data text\<rparr>"

definition upper_lang_file :: lang_file where
  "upper_lang_file =
     \<lparr>path = str ''assets/foo/lang/EN_US.json'', content = source_mapping,
      mod_id = str ''foo'', lang_code = str ''EN_US''\<rparr>"




text \<open>A member that opens 100000 arrays: \<open>json.loads\<close> raises \<open>RecursionError\<close> on its
  text, in a world that is otherwise the one of the examples.\<close>

definition deep_text :: pystr where
  "deep_text = replicate 100000 91"

definition deep_member :: zip_info where
  "deep_member =
     \<lparr>filename = str ''assets/m0/lang/en_us.json'', file_size = 100000,
      stored = Data (replicate 100000 (CHR 0x5B))\<rparr>"

definition deep_env :: env where
  "deep_env =
     (demo_env [])
       \<lparr>json_loads := (\<lambda>s. if s = deep_text then Inl RecursionError else demo_loads s)\<rparr>"









section \<open>Verification\<close>

subsection \<open>The locator\<close>

lemma read_json_Inr:
  "read_json env zi = Inr v \<longleftrightarrow>
     (\<exists>b text. stored zi = Data b \<and> utf8_decode b = Some text \<and> json_loads env text = Inr v)"
  by (auto simp: read_json_def zip_read_def split: entry_data.splits option.splits)

lemma ModTranslator_scan_member:
  "lf \<in> set (fst (ModTranslator_scan env es acc)) \<Longrightarrow>
   lf \<in> set acc \<or>
   (\<exists>zi \<in> set es. filename zi = path lf \<and> re_match en_us_pattern (path lf) \<and>
      read_json env zi = Inr (content lf))"
proof (induction es arbitrary: acc)
  case Nil
  then show ?case by simp
next
  case (Cons zi es)
  show ?case
  proof (cases "re_match en_us_pattern (filename zi)")
    case False
    with Cons.prems have "lf \<in> set (fst (ModTranslator_scan env es acc))" by (simp add: Let_def)
    from Cons.IH [OF this] show ?thesis by auto
  next
    case True
    show ?thesis
    proof (cases "read_json env zi")
      case (Inr v)
      let ?new = "\<lparr>path = filename zi, content = v, mod_id = extract_mod_id (filename zi),
                     lang_code = extract_lang_code (filename zi)\<rparr>"
      from Cons.prems True Inr
      have "lf \<in> set (fst (ModTranslator_scan env es (acc @ [?new])))" by (simp add: Let_def)
      from Cons.IH [OF this] True Inr show ?thesis by auto
    next
      case (Inl e)
      show ?thesis
      proof (cases "e = UnicodeDecodeError \<or> e = JSONDecodeError")
        case True
        with Cons.prems \<open>re_match en_us_pattern (filename zi)\<close> Inl
        have "lf \<in> set (fst (ModTranslator_scan env es acc))" by (simp add: Let_def)
        from Cons.IH [OF this] show ?thesis by auto
      next
        case False
        with Cons.prems \<open>re_match en_us_pattern (filename zi)\<close> Inl
        show ?thesis by (simp add: Let_def)
      qed
    qed
  qed
qed

lemma scan_filelist_member:
  "li \<in> set (fst (scan_filelist env es acc)) \<Longrightarrow>
   li \<in> set acc \<or>
   (\<exists>zi \<in> set es. filename zi = info_path li \<and> re_match lang_pattern (info_path li) \<and>
      (\<exists>v. read_json env zi = Inr v))"
proof (induction es arbitrary: acc)
  case Nil
  then show ?case by simp
next
  case (Cons zi es)
  show ?case
  proof (cases "re_match lang_pattern (filename zi)")
    case False
    with Cons.prems have "li \<in> set (fst (scan_filelist env es acc))" by (simp add: Let_def)
    from Cons.IH [OF this] show ?thesis by auto
  next
    case True
    show ?thesis
    proof (cases "read_json env zi")
      case (Inr v)
      let ?new = "\<lparr>info_path = filename zi, info_size = file_size zi,
                     info_mod_id = extract_mod_id (filename zi),
                     info_lang_code = extract_lang_code (filename zi)\<rparr>"
      from Cons.prems True Inr
      have "li \<in> set (fst (scan_filelist env es (acc @ [?new])))" by (simp add: Let_def)
      from Cons.IH [OF this] True Inr show ?thesis by auto
    next
      case (Inl e)
      show ?thesis
      proof (cases "e = UnicodeDecodeError \<or> e = JSONDecodeError")
        case True
        with Cons.prems \<open>re_match lang_pattern (filename zi)\<close> Inl
        have "li \<in> set (fst (scan_filelist env es acc))" by (simp add: Let_def)
        from Cons.IH [OF this] show ?thesis by auto
      next
        case False
        with Cons.prems \<open>re_match lang_pattern (filename zi)\<close> Inl
        show ?thesis by (simp add: Let_def)
      qed
    qed
  qed
qed

lemma parse_failure_read_json:
  "parse_failure env zi = Some e \<Longrightarrow> read_json env zi = Inl e"
  by (auto simp: parse_failure_def read_json_def zip_read_def
           split: entry_data.splits option.splits sum.splits)

lemma ModTranslator_scan_skip:
  assumes "read_json env zi = Inl e" and "e = UnicodeDecodeError \<or> e = JSONDecodeError"
  shows "ModTranslator_scan env (es1 @ zi # es2) acc = ModTranslator_scan env (es1 @ es2) acc"
proof (induction es1 arbitrary: acc)
  case Nil
  from assms show ?case by (auto simp: Let_def)
next
  case (Cons a es1)
  then show ?case by (simp add: Let_def split: sum.splits)
qed

lemma scan_filelist_skip:
  assumes "read_json env zi = Inl e" and "e = UnicodeDecodeError \<or> e = JSONDecodeError"
  shows "scan_filelist env (es1 @ zi # es2) acc = scan_filelist env (es1 @ es2) acc"
proof (induction es1 arbitrary: acc)
  case Nil
  from assms show ?case by (auto simp: Let_def)
next
  case (Cons a es1)
  then show ?case by (simp add: Let_def split: sum.splits)
qed

lemma lit_Nil: "lit [] = Eps"
  by (simp add: lit_def)

lemma lit_Cons: "lit (c # s) = Seq (Lit (of_char c)) (lit s)"
  by (simp add: lit_def)

lemma ends_after_lit:
  "r \<in> set (ends_after (lit s) t) \<longleftrightarrow>
     (\<exists>x. t = x @ r \<and> list_all2 (\<lambda>c d. ignorecase_eq (of_char c) d) s x)"
proof (induction s arbitrary: t)
  case Nil
  then show ?case by (auto simp: lit_Nil)
next
  case (Cons c s)
  show ?case
  proof (cases t)
    case Nil
    then show ?thesis by (simp add: lit_Cons)
  next
    case (Cons d t')
    then show ?thesis
      by (auto simp: lit_Cons Cons.IH list_all2_Cons1 Cons_eq_append_conv)
  qed
qed

lemma after_segment_append:
  "x \<noteq> [] \<Longrightarrow> 47 \<notin> set x \<Longrightarrow> r \<in> set (after_segment (x @ r))"
proof (induction x)
  case Nil
  then show ?case by simp
next
  case (Cons d x)
  then show ?case by (cases x) auto
qed

lemma ignorecase_not_slash:
  "ignorecase_eq c 47 \<Longrightarrow> c = 47"
  by (auto simp: ignorecase_eq_def ascii_lower_def split: if_splits)

lemma en_us_is_segment:
  assumes "list_all2 (\<lambda>c d. ignorecase_eq (of_char c) d) ''en_us'' x"
  shows "x \<noteq> [] \<and> 47 \<notin> set x"
proof -
  from assms obtain d1 d2 d3 d4 d5 where x: "x = [d1, d2, d3, d4, d5]"
    and m: "ignorecase_eq 101 d1" "ignorecase_eq 110 d2" "ignorecase_eq 95 d3"
           "ignorecase_eq 117 d4" "ignorecase_eq 115 d5"
    by (auto simp: list_all2_Cons1)
  from m have "d1 \<noteq> 47" "d2 \<noteq> 47" "d3 \<noteq> 47" "d4 \<noteq> 47" "d5 \<noteq> 47"
    by (auto dest: ignorecase_not_slash)
  with x show ?thesis by simp
qed

lemma en_us_json_in_lang:
  assumes "r \<in> set (ends_after (lit ''/lang/en_us.json'') t)"
  shows "\<exists>m \<in> set (ends_after (lit ''/lang/'') t).
           \<exists>m' \<in> set (after_segment m). r \<in> set (ends_after (lit ''.json'') m')"
proof -
  have split: "''/lang/en_us.json'' = ''/lang/'' @ ''en_us'' @ ''.json''" by simp
  from assms obtain x where t: "t = x @ r"
    and x: "list_all2 (\<lambda>c d. ignorecase_eq (of_char c) d) (''/lang/'' @ ''en_us'' @ ''.json'') x"
    unfolding ends_after_lit split by blast
  from x obtain x1 x2 x3 where xs: "x = x1 @ x2 @ x3"
    and x1: "list_all2 (\<lambda>c d. ignorecase_eq (of_char c) d) ''/lang/'' x1"
    and x2: "list_all2 (\<lambda>c d. ignorecase_eq (of_char c) d) ''en_us'' x2"
    and x3: "list_all2 (\<lambda>c d. ignorecase_eq (of_char c) d) ''.json'' x3"
    unfolding list_all2_append1 by blast
  from x1 t xs have "x2 @ x3 @ r \<in> set (ends_after (lit ''/lang/'') t)"
    unfolding ends_after_lit by auto
  moreover from en_us_is_segment [OF x2]
  have "x3 @ r \<in> set (after_segment (x2 @ x3 @ r))"
    by (simp add: after_segment_append)
  moreover from x3 have "r \<in> set (ends_after (lit ''.json'') (x3 @ r))"
    unfolding ends_after_lit by auto
  ultimately show ?thesis by blast
qed

lemma en_us_pattern_is_lang_pattern:
  assumes "re_match en_us_pattern p"
  shows "re_match lang_pattern p"
proof -
  from assms obtain r m1 m2 m3 where r: "r = [] \<or> r = [10]"
    and m1: "m1 \<in> set (ends_after (Alt (lit ''assets'') (lit ''data'')) p)"
    and m2: "m2 \<in> set (ends_after (lit ''/'') m1)"
    and m3: "m3 \<in> set (after_segment m2)"
    and r3: "r \<in> set (ends_after (lit ''/lang/en_us.json'') m3)"
    by (auto simp: re_match_def en_us_pattern_def list_ex_iff)
  from en_us_json_in_lang [OF r3] obtain m4 m5
    where m4: "m4 \<in> set (ends_after (lit ''/lang/'') m3)"
      and m5: "m5 \<in> set (after_segment m4)"
      and r5: "r \<in> set (ends_after (lit ''.json'') m5)"
    by blast
  have "r \<in> set (ends_after lang_pattern p)"
    unfolding lang_pattern_def using m1 m2 m3 m4 m5 r5
    by auto
  with r show ?thesis by (auto simp: re_match_def list_ex_iff)
qed

lemma zip_open_read_Inr:
  "zip_open_read d jar_path = Inr filelist \<Longrightarrow> members d jar_path = filelist"
  by (auto simp: zip_open_read_def members_def split: option.splits disk_file.splits)

lemma fst_ModTranslator_find:
  "fst (ModTranslator_find_language_files_in_jar env d jar_path) =
     (case zip_open_read d jar_path of
        Inl e \<Rightarrow> []
      | Inr filelist \<Rightarrow> fst (ModTranslator_scan env filelist []))"
  by (auto simp: ModTranslator_find_language_files_in_jar_def
           split: sum.splits prod.splits option.splits)

lemma fst_find:
  "fst (fst (find_language_files_in_jar env d jar_path)) =
     (case zip_open_read d jar_path of
        Inl e \<Rightarrow> []
      | Inr filelist \<Rightarrow> fst (scan_filelist env filelist []))"
  by (auto simp: find_language_files_in_jar_def
           split: sum.splits prod.splits option.splits)

lemma ModTranslator_find_member:
  assumes "lf \<in> set (fst (ModTranslator_find_language_files_in_jar env d jar_path))"
  shows "re_match en_us_pattern (path lf) \<and>
         (\<exists>zi \<in> set (members d jar_path). filename zi = path lf \<and>
            (\<exists>b text. stored zi = Data b \<and> utf8_decode b = Some text \<and>
               json_loads env text = Inr (content lf)))"
proof (cases "zip_open_read d jar_path")
  case (Inl e)
  with assms show ?thesis by (simp add: fst_ModTranslator_find)
next
  case (Inr filelist)
  with assms have "lf \<in> set (fst (ModTranslator_scan env filelist []))"
    by (simp add: fst_ModTranslator_find)
  from ModTranslator_scan_member [OF this] zip_open_read_Inr [OF Inr]
  show ?thesis by (auto simp: read_json_Inr)
qed

lemma find_member:
  assumes "li \<in> set (fst (fst (find_language_files_in_jar env d jar_path)))"
  shows "re_match lang_pattern (info_path li) \<and>
         (\<exists>zi \<in> set (members d jar_path). filename zi = info_path li \<and>
            (\<exists>b text v. stored zi = Data b \<and> utf8_decode b = Some text \<and>
               json_loads env text = Inr v))"
proof (cases "zip_open_read d jar_path")
  case (Inl e)
  with assms show ?thesis by (simp add: fst_find)
next
  case (Inr filelist)
  with assms have "li \<in> set (fst (scan_filelist env filelist []))"
    by (simp add: fst_find)
  from scan_filelist_member [OF this] zip_open_read_Inr [OF Inr]
  show ?thesis by (auto simp: read_json_Inr)
qed

lemma ModTranslator_scan_append:
  "ModTranslator_scan env (es1 @ es2) acc =
     (case ModTranslator_scan env es1 acc of
        (acc', None) \<Rightarrow> ModTranslator_scan env es2 acc'
      | (acc', Some e) \<Rightarrow> (acc', Some e))"
  by (induction es1 arbitrary: acc) (auto simp: Let_def split: sum.splits)

lemma scan_filelist_append:
  "scan_filelist env (es1 @ es2) acc =
     (case scan_filelist env es1 acc of
        (acc', None) \<Rightarrow> scan_filelist env es2 acc'
      | (acc', Some e) \<Rightarrow> (acc', Some e))"
  by (induction es1 arbitrary: acc) (auto simp: Let_def split: sum.splits)


lemma ModTranslator_find_read_fails:
  assumes d: "d jar_path = Some (Zip pre (es1 @ zi # es2))"
    and before: "snd (ModTranslator_scan env es1 []) = None"
    and zi: "re_match en_us_pattern (filename zi)" "read_json env zi = Inl e"
      "e \<noteq> UnicodeDecodeError" "e \<noteq> JSONDecodeError"
  shows "ModTranslator_find_language_files_in_jar env d jar_path =
           (fst (ModTranslator_scan env es1 []), [report jar_path e])"
proof -
  obtain acc where acc: "ModTranslator_scan env es1 [] = (acc, None)"
    using before by (cases "ModTranslator_scan env es1 []") auto
  have "ModTranslator_scan env (es1 @ zi # es2) [] = (acc, Some e)"
    using acc zi by (simp add: ModTranslator_scan_append Let_def)
  with d acc show ?thesis
    by (simp add: ModTranslator_find_language_files_in_jar_def zip_open_read_def)
qed

lemma find_read_fails:
  assumes d: "d jar_path = Some (Zip pre (es1 @ zi # es2))"
    and before: "snd (scan_filelist env es1 []) = None"
    and zi: "re_match lang_pattern (filename zi)" "read_json env zi = Inl e"
      "e \<noteq> UnicodeDecodeError" "e \<noteq> JSONDecodeError"
  shows "fst (find_language_files_in_jar env d jar_path) =
           (fst (scan_filelist env es1 []), [report jar_path e])"
proof -
  obtain acc where acc: "scan_filelist env es1 [] = (acc, None)"
    using before by (cases "scan_filelist env es1 []") auto
  have "scan_filelist env (es1 @ zi # es2) [] = (acc, Some e)"
    using acc zi by (simp add: scan_filelist_append Let_def)
  with d acc show ?thesis
    by (simp add: find_language_files_in_jar_def zip_open_read_def)
qed

lemma find_skip:
  assumes "d jar_path = Some (Zip pre (es1 @ zi # es2))" and "read_json env zi = Inl e"
    and "e = UnicodeDecodeError \<or> e = JSONDecodeError"
  shows "ModTranslator_find_language_files_in_jar env d jar_path =
           ModTranslator_find_language_files_in_jar env
             (d(jar_path \<mapsto> Zip pre (es1 @ es2))) jar_path"
    and "fst (find_language_files_in_jar env d jar_path) =
           fst (find_language_files_in_jar env
                  (d(jar_path \<mapsto> Zip pre (es1 @ es2))) jar_path)"
  using assms(1) ModTranslator_scan_skip [OF assms(2,3)] scan_filelist_skip [OF assms(2,3)]
  by (simp_all add: ModTranslator_find_language_files_in_jar_def find_language_files_in_jar_def
        zip_open_read_def split: prod.splits option.splits)

text \<open>
  Claim C6, as amended. Every entry a locator yields has a path that matches the grammar
  \<open>(assets|data)/<segment>/lang/<segment>.json\<close> without regard to case (in translation
  mode the stricter pattern with the file name \<open>en_us.json\<close> as well), and is a member
  of the archive whose bytes decode as UTF-8 to a text that parses as JSON (to the
  content yielded, in translation mode). A member whose bytes fail UTF-8 decoding, or
  whose text the parser refuses with \<open>JSONDecodeError\<close>, is skipped: the locator returns
  what it returns for the archive without that member, messages included. When the
  parser fails on a member with any other exception, the member is not skipped: the scan
  of the archive ends there, the failure is reported and the entries collected before
  the member are yielded. In no case does an exception leave the locator.
\<close>

theorem locator_yields_parsed_language_files:
  "(\<forall>lf \<in> set (fst (ModTranslator_find_language_files_in_jar env d jar_path)).
      re_match lang_pattern (path lf) \<and> re_match en_us_pattern (path lf) \<and>
      (\<exists>zi \<in> set (members d jar_path). filename zi = path lf \<and>
         (\<exists>b text. stored zi = Data b \<and> utf8_decode b = Some text \<and>
            json_loads env text = Inr (content lf)))) \<and>
   (\<forall>li \<in> set (fst (fst (find_language_files_in_jar env d jar_path))).
      re_match lang_pattern (info_path li) \<and>
      (\<exists>zi \<in> set (members d jar_path). filename zi = info_path li \<and>
         (\<exists>b text v. stored zi = Data b \<and> utf8_decode b = Some text \<and>
            json_loads env text = Inr v))) \<and>
   (d jar_path = Some (Zip pre (es1 @ zi # es2)) \<and> parse_failure env zi = Some e \<and>
    (e = UnicodeDecodeError \<or> e = JSONDecodeError) \<longrightarrow>
      ModTranslator_find_language_files_in_jar env d jar_path =
        ModTranslator_find_language_files_in_jar env
          (d(jar_path \<mapsto> Zip pre (es1 @ es2))) jar_path \<and>
      fst (find_language_files_in_jar env d jar_path) =
        fst (find_language_files_in_jar env
               (d(jar_path \<mapsto> Zip pre (es1 @ es2))) jar_path)) \<and>
   (d jar_path = Some (Zip pre (es1 @ zi # es2)) \<and> parse_failure env zi = Some e \<and>
    e \<noteq> UnicodeDecodeError \<and> e \<noteq> JSONDecodeError \<longrightarrow>
      (snd (ModTranslator_scan env es1 []) = None \<and> re_match en_us_pattern (filename zi) \<longrightarrow>
         ModTranslator_find_language_files_in_jar env d jar_path =
           (fst (ModTranslator_scan env es1 []), [report jar_path e])) \<and>
      (snd (scan_filelist env es1 []) = None \<and> re_match lang_pattern (filename zi) \<longrightarrow>
         fst (find_language_files_in_jar env d jar_path) =
           (fst (scan_filelist env es1 []), [report jar_path e])))"
proof (intro conjI ballI impI)
  fix lf
  assume lf: "lf \<in> set (fst (ModTranslator_find_language_files_in_jar env d jar_path))"
  from ModTranslator_find_member [OF lf]
  show "re_match en_us_pattern (path lf)"
    and "\<exists>zi \<in> set (members d jar_path). filename zi = path lf \<and>
           (\<exists>b text. stored zi = Data b \<and> utf8_decode b = Some text \<and>
              json_loads env text = Inr (content lf))"
    by blast+
  then show "re_match lang_pattern (path lf)"
    by (simp add: en_us_pattern_is_lang_pattern)
next
  fix li
  assume li: "li \<in> set (fst (fst (find_language_files_in_jar env d jar_path)))"
  from find_member [OF li]
  show "re_match lang_pattern (info_path li)"
    and "\<exists>zi \<in> set (members d jar_path). filename zi = info_path li \<and>
           (\<exists>b text v. stored zi = Data b \<and> utf8_decode b = Some text \<and>
              json_loads env text = Inr v)"
    by blast+
next
  assume h: "d jar_path = Some (Zip pre (es1 @ zi # es2)) \<and> parse_failure env zi = Some e \<and>
    (e = UnicodeDecodeError \<or> e = JSONDecodeError)"
  then have r: "read_json env zi = Inl e" by (simp add: parse_failure_read_json)
  from h r show "ModTranslator_find_language_files_in_jar env d jar_path =
      ModTranslator_find_language_files_in_jar env
        (d(jar_path \<mapsto> Zip pre (es1 @ es2))) jar_path"
    by (intro find_skip(1) [of d jar_path pre es1 zi es2 env e]) simp_all
  from h r show "fst (find_language_files_in_jar env d jar_path) =
      fst (find_language_files_in_jar env
             (d(jar_path \<mapsto> Zip pre (es1 @ es2))) jar_path)"
    by (intro find_skip(2) [of d jar_path pre es1 zi es2 env e]) simp_all
next
  assume h: "d jar_path = Some (Zip pre (es1 @ zi # es2)) \<and> parse_failure env zi = Some e \<and>
    e \<noteq> UnicodeDecodeError \<and> e \<noteq> JSONDecodeError"
    and g: "snd (ModTranslator_scan env es1 []) = None \<and> re_match en_us_pattern (filename zi)"
  then show "ModTranslator_find_language_files_in_jar env d jar_path =
           (fst (ModTranslator_scan env es1 []), [report jar_path e])"
    by (simp add: ModTranslator_find_read_fails parse_failure_read_json)
next
  assume h: "d jar_path = Some (Zip pre (es1 @ zi # es2)) \<and> parse_failure env zi = Some e \<and>
    e \<noteq> UnicodeDecodeError \<and> e \<noteq> JSONDecodeError"
    and g: "snd (scan_filelist env es1 []) = None \<and> re_match lang_pattern (filename zi)"
  then show "fst (find_language_files_in_jar env d jar_path) =
           (fst (scan_filelist env es1 []), [report jar_path e])"
    by (simp add: find_read_fails parse_failure_read_json)
qed

lemmas demo_defs =
  demo_env_def demo_disk_def demo_jar_def demo_loads_def demo_dumps_def
  en_us_member_def latin1_member_def prose_member_def corrupt_member_def upper_member_def
  source_text_def source_mapping_def full_mapping_def short_mapping_def
  full_reply_def short_reply_def source_dump_def full_dump_def short_dump_def
  en_us_lang_file_def ja_jp_member_def

lemmas pattern_defs =
  re_match_def en_us_pattern_def lang_pattern_def lit_def ignorecase_eq_def ascii_lower_def

lemma demo_find:
  "ModTranslator_find_language_files_in_jar (demo_env reply)
     (demo_disk [latin1_member, en_us_member, prose_member]) demo_jar = ([en_us_lang_file], [])"
  by (simp add: ModTranslator_find_language_files_in_jar_def zip_open_read_def Let_def
        read_json_def zip_read_def demo_defs pattern_defs cont_def low6_def
        extract_mod_id_def extract_lang_code_def basename_def splitext_root_def)

lemmas eval_defs =
  ModTranslator_find_language_files_in_jar_def find_language_files_in_jar_def
  zip_open_read_def Let_def read_json_def zip_read_def cont_def low6_def
  extract_mod_id_def extract_lang_code_def basename_def splitext_root_def

lemma utf8_encode_ascii:
  "list_all (\<lambda>c. (of_char c :: nat) < 128) s \<Longrightarrow> utf8_encode (str s) = Some s"
  by (induction s) (auto simp: encode_char_def)

lemma utf8_decode_ascii:
  "list_all (\<lambda>c. (of_char c :: nat) < 128) s \<Longrightarrow> utf8_decode s = Some (str s)"
  by (induction s) (auto simp: Let_def)

lemma utf8_decode_brackets:
  "utf8_decode (replicate n (CHR 0x5B)) = Some (replicate n 91)"
  by (induction n) (simp_all add: Let_def)

lemma deep_text_differs: "length s \<noteq> 100000 \<Longrightarrow> s \<noteq> deep_text"
  by (auto simp: deep_text_def)

lemma deep_env_loads:
  "json_loads deep_env deep_text = Inl RecursionError"
  "json_loads deep_env (str source_text) = Inr source_mapping"
  by (simp_all add: deep_env_def deep_text_differs source_text_def demo_loads_def)

lemma deep_read_json:
  "read_json deep_env deep_member = Inl RecursionError"
  "read_json deep_env en_us_member = Inr source_mapping"
proof -
  show "read_json deep_env deep_member = Inl RecursionError"
    by (simp add: read_json_def zip_read_def deep_member_def utf8_decode_brackets
          deep_env_loads(1) [unfolded deep_text_def])
  have "utf8_decode source_text = Some (str source_text)"
    by (rule utf8_decode_ascii) (simp add: source_text_def)
  then show "read_json deep_env en_us_member = Inr source_mapping"
    by (simp add: read_json_def zip_read_def en_us_member_def deep_env_loads(2))
qed

lemma demo_names_match:
  "re_match en_us_pattern (filename deep_member)"
  "re_match en_us_pattern (filename en_us_member)"
  by (simp_all add: deep_member_def en_us_member_def pattern_defs)

lemma en_us_lang_file_eq:
  "\<lparr>path = filename en_us_member, content = source_mapping,
     mod_id = extract_mod_id (filename en_us_member),
     lang_code = extract_lang_code (filename en_us_member)\<rparr> = en_us_lang_file"
  by (simp add: en_us_member_def en_us_lang_file_def extract_mod_id_def extract_lang_code_def
        basename_def splitext_root_def)

text \<open>The claim as stated fails at a member whose text is nested too deeply for
  \<open>json.loads\<close>: the member is not skipped, the reference-language file after it is
  lost.\<close>

theorem locator_skip_counterexample:
  "parse_failure deep_env deep_member = Some RecursionError \<and>
   ModTranslator_find_language_files_in_jar deep_env
     (demo_disk [deep_member, en_us_member]) demo_jar = ([], [Error demo_jar RecursionError]) \<and>
   ModTranslator_find_language_files_in_jar deep_env
     (demo_disk [en_us_member]) demo_jar = ([en_us_lang_file], [])"
proof -
  have "parse_failure deep_env deep_member = Some RecursionError"
    by (simp add: parse_failure_def deep_member_def utf8_decode_brackets
          deep_env_loads(1) [unfolded deep_text_def])
  then show ?thesis
    by (simp add: ModTranslator_find_language_files_in_jar_def zip_open_read_def demo_disk_def
          Let_def demo_names_match deep_read_json en_us_lang_file_eq report_def)
qed

text \<open>The theorem at an archive with a member that is not UTF-8, the reference-language
  file and a member that is no JSON, of which only the second is yielded; and at an
  archive whose second member is nested too deeply.\<close>

theorem locator_yields_parsed_language_files_witness:
  "en_us_lang_file \<in> set (fst (ModTranslator_find_language_files_in_jar (demo_env [])
       (demo_disk [latin1_member, en_us_member, prose_member]) demo_jar)) \<and>
   re_match lang_pattern (path en_us_lang_file) \<and>
   parse_failure (demo_env []) latin1_member = Some UnicodeDecodeError \<and>
   ModTranslator_find_language_files_in_jar (demo_env [])
       (demo_disk [latin1_member, en_us_member, prose_member]) demo_jar =
     ModTranslator_find_language_files_in_jar (demo_env [])
       (demo_disk [en_us_member, prose_member]) demo_jar \<and>
   ModTranslator_find_language_files_in_jar deep_env
       (demo_disk [en_us_member, deep_member, en_us_member]) demo_jar =
     ([en_us_lang_file], [Error demo_jar RecursionError])"
proof -
  let ?d = "demo_disk [latin1_member, en_us_member, prose_member]"
  let ?deep = "demo_disk [en_us_member, deep_member, en_us_member]"
  have mem: "en_us_lang_file \<in> set (fst (ModTranslator_find_language_files_in_jar
      (demo_env []) ?d demo_jar))"
    by (simp add: demo_find)
  have d: "?d demo_jar = Some (Zip [] ([] @ latin1_member # [en_us_member, prose_member]))"
    by (simp add: demo_disk_def)
  have u: "parse_failure (demo_env []) latin1_member = Some UnicodeDecodeError"
    by (simp add: parse_failure_def latin1_member_def)
  have upd: "?d(demo_jar \<mapsto> Zip [] ([] @ [en_us_member, prose_member])) =
      demo_disk [en_us_member, prose_member]"
    by (simp add: demo_disk_def)
  have dd: "?deep demo_jar = Some (Zip [] ([en_us_member] @ deep_member # [en_us_member]))"
    by (simp add: demo_disk_def)
  have pf: "parse_failure deep_env deep_member = Some RecursionError"
    by (simp add: parse_failure_def deep_member_def utf8_decode_brackets
          deep_env_loads(1) [unfolded deep_text_def])
  note inst = locator_yields_parsed_language_files
    [of "demo_env []" ?d demo_jar "[]" "[]" latin1_member "[en_us_member, prose_member]"
        UnicodeDecodeError]
  note deep = locator_yields_parsed_language_files
    [of deep_env ?deep demo_jar "[]" "[en_us_member]" deep_member "[en_us_member]"
        RecursionError]
  from inst mem have "re_match lang_pattern (path en_us_lang_file)" by blast
  moreover from inst [THEN conjunct2, THEN conjunct2, THEN conjunct1] d u upd
  have "ModTranslator_find_language_files_in_jar (demo_env []) ?d demo_jar =
     ModTranslator_find_language_files_in_jar (demo_env [])
       (demo_disk [en_us_member, prose_member]) demo_jar"
    by simp
  moreover from deep [THEN conjunct2, THEN conjunct2, THEN conjunct2] dd pf
  have "ModTranslator_find_language_files_in_jar deep_env ?deep demo_jar =
     ([en_us_lang_file], [Error demo_jar RecursionError])"
    by (simp add: Let_def demo_names_match deep_read_json en_us_lang_file_eq report_def)
  ultimately show ?thesis using mem u by simp
qed

subsection \<open>Failures of the locator\<close>




subsection \<open>The derived path\<close>

lemmas save_defs = save_translated_json_to_jar_def Let_def members_def

text \<open>
  Claim C5 at the member \<open>assets/foo/lang/EN_US.json\<close>: the locator of the
  translation mode yields it, since its pattern ignores case, and the path derived for
  the translation is the same path, since \<open>replace\<close> does not: the archive gets a
  second member of that name and none called \<open>ja_jp.json\<close>. At a namespace that is
  itself called \<open>en_us.json\<close>, the namespace segment is replaced as well.
\<close>

theorem derived_path_misses_upper_case_name:
  "fst (ModTranslator_find_language_files_in_jar (demo_env full_reply)
          (demo_disk [upper_member]) demo_jar) = [upper_lang_file] \<and>
   map filename
     (members (snd (save_translated_json_to_jar (demo_env full_reply) (\<lambda>step. False) (\<lambda>step. None)
                      (demo_disk [upper_member]) demo_jar upper_lang_file full_mapping))
        demo_jar) =
     [str ''assets/foo/lang/EN_US.json'', str ''assets/foo/lang/EN_US.json''] \<and>
   re_match en_us_pattern (str ''assets/en_us.json/lang/en_us.json'') \<and>
   py_replace (str ''assets/en_us.json/lang/en_us.json'') (str ''en_us.json'')
     (str ''ja_jp.json'') = str ''assets/ja_jp.json/lang/ja_jp.json''"
proof (intro conjI)
  show "fst (ModTranslator_find_language_files_in_jar (demo_env full_reply)
          (demo_disk [upper_member]) demo_jar) = [upper_lang_file]"
    by (simp add: eval_defs demo_defs pattern_defs upper_lang_file_def)
  have enc: "utf8_encode (str full_dump) = Some full_dump"
    by (rule utf8_encode_ascii) (simp add: full_dump_def)
  show "map filename
     (members (snd (save_translated_json_to_jar (demo_env full_reply) (\<lambda>step. False) (\<lambda>step. None)
                      (demo_disk [upper_member]) demo_jar upper_lang_file full_mapping))
        demo_jar) =
     [str ''assets/foo/lang/EN_US.json'', str ''assets/foo/lang/EN_US.json'']"
    by (simp add: save_defs enc demo_env_def demo_dumps_def demo_disk_def demo_jar_def
          upper_lang_file_def upper_member_def full_mapping_def source_mapping_def)
  show "re_match en_us_pattern (str ''assets/en_us.json/lang/en_us.json'')"
    by (simp add: pattern_defs)
  show "py_replace (str ''assets/en_us.json/lang/en_us.json'') (str ''en_us.json'')
     (str ''ja_jp.json'') = str ''assets/ja_jp.json/lang/ja_jp.json''"
    by simp
qed

subsection \<open>The archive mutator\<close>


lemma save_success:
  assumes "save_translated_json_to_jar env raises leaves d jar_path lf c = (True, d')"
  shows "\<exists>f text data. d jar_path = Some f \<and> json_dumps env c = Inr text \<and>
           utf8_encode text = Some data \<and>
           d' jar_path =
             Some (zip_append f
                     (py_replace (path lf) (str ''en_us.json'') (str ''ja_jp.json'')) data) \<and>
           d' (jar_path @ str ''.backup'') =
             (case d (jar_path @ str ''.backup'') of None \<Rightarrow> Some f | Some b \<Rightarrow> Some b)"
  using assms
  by (auto simp: save_translated_json_to_jar_def Let_def
           split: if_splits option.splits sum.splits)





lemma save_keeps_backup:
  "d (jar_path @ str ''.backup'') = Some b \<Longrightarrow>
   snd (save_translated_json_to_jar env raises leaves d jar_path lf c)
     (jar_path @ str ''.backup'') = Some b"
  by (auto simp: save_translated_json_to_jar_def Let_def split: option.splits sum.splits)

lemma save_sequence_keeps_backup:
  "d (jar_path @ str ''.backup'') = Some b \<Longrightarrow>
   snd (save_sequence env d jar_path ms) (jar_path @ str ''.backup'') = Some b"
proof (induction ms arbitrary: d)
  case Nil
  then show ?case by simp
next
  case (Cons m ms)
  obtain raises leaves lf c where m: "m = (raises, leaves, lf, c)" by (cases m)
  let ?d1 = "snd (save_translated_json_to_jar env raises leaves d jar_path lf c)"
  from Cons.prems have "?d1 (jar_path @ str ''.backup'') = Some b"
    by (rule save_keeps_backup)
  with Cons.IH [of ?d1] show ?case
    by (auto simp: m split: prod.splits)
qed








lemma demo_encode:
  "utf8_encode (str full_dump) = Some full_dump"
  "utf8_encode (str short_dump) = Some short_dump"
  by (rule utf8_encode_ascii, simp add: full_dump_def short_dump_def)+

lemmas demo_save_defs =
  save_translated_json_to_jar_def Let_def demo_encode demo_env_def demo_dumps_def
  demo_disk_def demo_jar_def en_us_lang_file_def en_us_member_def
  full_mapping_def short_mapping_def source_mapping_def






text \<open>
  Claim C3. For an archive without a \<open>.backup\<close> sibling, after one or more successful
  mutations in sequence the backup exists and is the archive as it was before the
  first of them; it is the same after the first mutations as after all of them, so
  no later mutation alters or recreates it.
\<close>

theorem backup_is_archive_before_first_mutation:
  assumes "d (jar_path @ str ''.backup'') = None" and "ms1 \<noteq> []"
    and "list_all (\<lambda>ok. ok) (fst (save_sequence env d jar_path (ms1 @ ms2)))"
  shows "d jar_path \<noteq> None \<and>
         snd (save_sequence env d jar_path ms1) (jar_path @ str ''.backup'') = d jar_path \<and>
         snd (save_sequence env d jar_path (ms1 @ ms2)) (jar_path @ str ''.backup'') =
           d jar_path"
proof -
  from \<open>ms1 \<noteq> []\<close> obtain raises leaves lf c ms where ms1: "ms1 = (raises, leaves, lf, c) # ms"
    by (cases ms1) auto
  obtain ok d1 where s: "save_translated_json_to_jar env raises leaves d jar_path lf c = (ok, d1)"
    by (cases "save_translated_json_to_jar env raises leaves d jar_path lf c")
  from assms(3) have ok by (simp add: ms1 s split: prod.splits)
  with s have s': "save_translated_json_to_jar env raises leaves d jar_path lf c = (True, d1)"
    by simp
  from save_success [OF s'] assms(1) obtain f where f: "d jar_path = Some f"
    and b: "d1 (jar_path @ str ''.backup'') = Some f"
    by auto
  from save_sequence_keeps_backup [of d1 jar_path f env ms, OF b]
    save_sequence_keeps_backup [of d1 jar_path f env "ms @ ms2", OF b] f
  show ?thesis by (auto simp: ms1 s split: prod.splits)
qed

text \<open>The theorem at two mutations of the archive of the examples.\<close>

theorem backup_is_archive_before_first_mutation_witness:
  "demo_disk [en_us_member] (demo_jar @ str ''.backup'') = None \<and>
   fst (save_sequence (demo_env full_reply) (demo_disk [en_us_member]) demo_jar
          ([(\<lambda>step. False, \<lambda>step. None, en_us_lang_file, full_mapping)] @
           [(\<lambda>step. False, \<lambda>step. None, en_us_lang_file, short_mapping)])) = [True, True] \<and>
   snd (save_sequence (demo_env full_reply) (demo_disk [en_us_member]) demo_jar
          ([(\<lambda>step. False, \<lambda>step. None, en_us_lang_file, full_mapping)] @
           [(\<lambda>step. False, \<lambda>step. None, en_us_lang_file, short_mapping)]))
     (demo_jar @ str ''.backup'') = Some (Zip [] [en_us_member])"
proof -
  let ?ms1 = "[(\<lambda>step. False, \<lambda>step. None, en_us_lang_file, full_mapping)]"
  let ?ms2 = "[(\<lambda>step. False, \<lambda>step. None, en_us_lang_file, short_mapping)]"
  let ?seq = "save_sequence (demo_env full_reply) (demo_disk [en_us_member]) demo_jar
                (?ms1 @ ?ms2)"
  have none: "demo_disk [en_us_member] (demo_jar @ str ''.backup'') = None"
    by (simp add: demo_disk_def demo_jar_def)
  have oks: "fst ?seq = [True, True]"
    by (simp add: demo_save_defs)
  then have all: "list_all (\<lambda>ok. ok) (fst ?seq)" by simp
  from backup_is_archive_before_first_mutation [OF none _ all]
  have "snd ?seq (demo_jar @ str ''.backup'') = demo_disk [en_us_member] demo_jar"
    by simp
  with none oks show ?thesis by (simp add: demo_disk_def)
qed

subsection \<open>The payload of a reply\<close>



















lemmas fence_defs =
  strip_code_fence_def first_fenced_block_def block_inner_def info_string_def
  block_content_def py_find_def py_slice_def py_strip_def py_isspace_def



subsection \<open>Acceptance of a translation\<close>

lemma translate_Some:
  "fst (translate_json_with_gemini env k json_data) = Some v \<longleftrightarrow>
     (\<exists>json_str t. json_dumps env json_data = Inr json_str \<and>
        generate_content env k (instructions env @ json_str) = ApiText (Some t) \<and>
        t \<noteq> [] \<and> json_loads env (strip_code_fence t) = Inr v)"
  by (auto simp: translate_json_with_gemini_def Let_def
           split: sum.splits api_reply.splits option.splits)

lemma translate_lang_file_accepts:
  assumes "fst (translate_json_with_gemini env (total_files r + 1) (content lf)) = Some c"
    and "truthy c"
  shows "files (translate_lang_file env self jar_files jar_file r lf) =
           snd (save_translated_json_to_jar env (save_raises env (total_files r + 1))
                  (save_leaves env (total_files r + 1)) (files r) jar_file lf c)"
  using assms
  by (simp add: translate_lang_file_def Let_def split: prod.splits bool.splits)

lemma translate_lang_file_rejects:
  assumes "fst (translate_json_with_gemini env (total_files r + 1) (content lf)) = None \<or>
           (fst (translate_json_with_gemini env (total_files r + 1) (content lf)) = Some c \<and>
            \<not> truthy c)"
  shows "files (translate_lang_file env self jar_files jar_file r lf) = files r"
    and "successful_translations (translate_lang_file env self jar_files jar_file r lf) =
           successful_translations r"
  using assms
  by (auto simp: translate_lang_file_def Let_def)

text \<open>
  Claim C1, as amended. The orchestrator returns a value exactly when the reply is a
  text that is not empty and whose payload parses, and that value is what the payload
  parses to: its keys are not compared with those of the source mapping. A value that
  Python counts as true is handed to the mutator as it is. When the translation is a
  failure (\<open>None\<close>), or an empty value, the disk stays as it was (no entry is added, no
  backup is written) and the entry is not counted as translated.
\<close>

theorem translation_accepted_without_key_check:
  "(fst (translate_json_with_gemini env k json_data) = Some v \<longleftrightarrow>
      (\<exists>json_str t. json_dumps env json_data = Inr json_str \<and>
         generate_content env k (instructions env @ json_str) = ApiText (Some t) \<and>
         t \<noteq> [] \<and> json_loads env (strip_code_fence t) = Inr v)) \<and>
   (fst (translate_json_with_gemini env (total_files r + 1) (content lf)) = Some c \<and>
    truthy c \<longrightarrow>
      files (translate_lang_file env self jar_files jar_file r lf) =
        snd (save_translated_json_to_jar env (save_raises env (total_files r + 1))
               (save_leaves env (total_files r + 1)) (files r) jar_file lf c)) \<and>
   (fst (translate_json_with_gemini env (total_files r + 1) (content lf)) = None \<or>
    (fst (translate_json_with_gemini env (total_files r + 1) (content lf)) = Some c \<and>
     \<not> truthy c) \<longrightarrow>
      files (translate_lang_file env self jar_files jar_file r lf) = files r \<and>
      successful_translations (translate_lang_file env self jar_files jar_file r lf) =
        successful_translations r)"
  using translate_Some [of env k json_data v]
    translate_lang_file_accepts [of env r lf c self jar_files jar_file]
    translate_lang_file_rejects [of env r lf c self jar_files jar_file]
  by blast

lemma demo_translate_short:
  "translate_json_with_gemini (demo_env short_reply) k source_mapping =
     (Some short_mapping, [Request (str ''Translate the values into Japanese: '' @ source_dump)])"
  by (simp add: translate_json_with_gemini_def Let_def demo_env_def demo_dumps_def
        demo_loads_def short_reply_def fence_defs source_text_def full_reply_def)

lemma demo_find_one:
  "ModTranslator_find_language_files_in_jar (demo_env reply) (demo_disk [en_us_member])
     demo_jar = ([en_us_lang_file], [])"
  by (simp add: eval_defs demo_defs pattern_defs)

lemma demo_save_short:
  "save_translated_json_to_jar (demo_env reply) (\<lambda>step. False) (\<lambda>step. None)
     (demo_disk [en_us_member])
     demo_jar en_us_lang_file short_mapping =
   (True, [demo_jar \<mapsto> Zip [] [en_us_member, ja_jp_member short_dump],
           demo_jar @ str ''.backup'' \<mapsto> Zip [] [en_us_member]])"
  by (simp add: demo_save_defs ja_jp_member_def fun_upd_twist)

lemma demo_count_after_short:
  "count_language_files (demo_env reply)
     [demo_jar \<mapsto> Zip [] [en_us_member, ja_jp_member short_dump],
      demo_jar @ str ''.backup'' \<mapsto> Zip [] [en_us_member]] [demo_jar] = 1"
  by (simp add: count_language_files_def eval_defs demo_defs pattern_defs)

lemma demo_no_faults:
  "save_raises (demo_env reply) k = (\<lambda>step. False)"
  "save_leaves (demo_env reply) k = (\<lambda>step. None)"
  by (simp_all add: demo_env_def)

lemma demo_step_short:
  "translate_lang_file (demo_env short_reply) self [demo_jar] demo_jar
     (initial_run (demo_disk [en_us_member])) en_us_lang_file =
   \<lparr>files = [demo_jar \<mapsto> Zip [] [en_us_member, ja_jp_member short_dump],
              demo_jar @ str ''.backup'' \<mapsto> Zip [] [en_us_member]],
     total_files = 1, successful_translations = 1,
     events = [Request (str ''Translate the values into Japanese: '' @ source_dump)]\<rparr>"
proof -
  have c: "content en_us_lang_file = source_mapping"
    by (simp add: en_us_lang_file_def)
  have t: "truthy short_mapping" by (simp add: short_mapping_def)
  show ?thesis
    by (simp add: translate_lang_file_def Let_def initial_run_def c t demo_no_faults
          demo_translate_short demo_save_short demo_count_after_short [simplified]
          del: fun_upd_apply)
qed

lemma demo_run_short:
  "translate_mod_files (demo_env short_reply) self (Some [demo_jar])
     (demo_disk [en_us_member]) =
   \<lparr>files = [demo_jar \<mapsto> Zip [] [en_us_member, ja_jp_member short_dump],
              demo_jar @ str ''.backup'' \<mapsto> Zip [] [en_us_member]],
     total_files = 1, successful_translations = 1,
     events = [Request (str ''Translate the values into Japanese: '' @ source_dump)]\<rparr>"
  using demo_step_short [of self]
  by (simp add: translate_mod_files_def demo_find_one initial_run_def del: fun_upd_apply)

text \<open>The claim as stated fails at a reply that wraps, in a fenced block, a mapping
  with one of the two keys of the source: the translation is accepted and saved.\<close>

theorem key_set_counterexample:
  "keys short_mapping \<noteq> keys source_mapping \<and>
   fst (translate_json_with_gemini (demo_env short_reply) 1 source_mapping) =
     Some short_mapping \<and>
   successful_translations
     (translate_mod_files (demo_env short_reply) ModTranslator_init (Some [demo_jar])
        (demo_disk [en_us_member])) = 1 \<and>
   members
     (files (translate_mod_files (demo_env short_reply) ModTranslator_init (Some [demo_jar])
               (demo_disk [en_us_member]))) demo_jar =
     [en_us_member, ja_jp_member short_dump]"
proof -
  have "keys short_mapping \<noteq> keys source_mapping"
    by (simp add: short_mapping_def source_mapping_def)
  then show ?thesis
    by (simp add: demo_run_short demo_translate_short members_def)
qed

text \<open>The theorem at a reply that is no JSON, which leaves the disk as it was, and at
  the reply of the counterexample, which is accepted.\<close>

theorem translation_accepted_without_key_check_witness:
  "fst (translate_json_with_gemini (demo_env (str ''no translation'')) 1 source_mapping) = None \<and>
   files (translate_lang_file (demo_env (str ''no translation'')) ModTranslator_init [demo_jar]
            demo_jar (initial_run (demo_disk [en_us_member])) en_us_lang_file) =
     demo_disk [en_us_member] \<and>
   truthy short_mapping \<and>
   members
     (files (translate_lang_file (demo_env short_reply) ModTranslator_init [demo_jar]
               demo_jar (initial_run (demo_disk [en_us_member])) en_us_lang_file))
     demo_jar = [en_us_member, ja_jp_member short_dump]"
proof -
  let ?r = "initial_run (demo_disk [en_us_member])"
  have r: "total_files ?r = 0" "files ?r = demo_disk [en_us_member]"
    by (simp_all add: initial_run_def)
  have c: "content en_us_lang_file = source_mapping"
    by (simp add: en_us_lang_file_def)
  have none: "fst (translate_json_with_gemini (demo_env (str ''no translation'')) 1 source_mapping) = None"
    by (simp add: translate_json_with_gemini_def Let_def demo_env_def demo_dumps_def
          demo_loads_def fence_defs source_text_def full_reply_def)
  have some: "fst (translate_json_with_gemini (demo_env short_reply) 1 source_mapping) =
      Some short_mapping"
    by (simp add: demo_translate_short)
  have t: "truthy short_mapping" by (simp add: short_mapping_def)
  from translation_accepted_without_key_check
    [of "demo_env (str ''no translation'')" 1 source_mapping JNull ?r en_us_lang_file JNull
        ModTranslator_init "[demo_jar]" demo_jar] none
  have a: "files (translate_lang_file (demo_env (str ''no translation'')) ModTranslator_init [demo_jar]
            demo_jar ?r en_us_lang_file) = demo_disk [en_us_member]"
    by (simp add: r c)
  from translation_accepted_without_key_check
    [of "demo_env short_reply" 1 source_mapping short_mapping ?r en_us_lang_file short_mapping
        ModTranslator_init "[demo_jar]" demo_jar] some t
  have "files (translate_lang_file (demo_env short_reply) ModTranslator_init [demo_jar]
               demo_jar ?r en_us_lang_file) =
        snd (save_translated_json_to_jar (demo_env short_reply) (\<lambda>step. False) (\<lambda>step. None)
               (demo_disk [en_us_member]) demo_jar en_us_lang_file short_mapping)"
    by (simp add: r c demo_no_faults)
  then have b: "members
     (files (translate_lang_file (demo_env short_reply) ModTranslator_init [demo_jar]
               demo_jar ?r en_us_lang_file)) demo_jar = [en_us_member, ja_jp_member short_dump]"
    by (simp add: demo_save_short members_def)
  from none a t b show ?thesis by simp
qed

subsection \<open>The pace of a run\<close>







































subsection \<open>The discovery scan\<close>

lemma find_language_files_in_jar_disk:
  "snd (find_language_files_in_jar env d jar_path) = d"
  by (simp add: find_language_files_in_jar_def split: sum.splits prod.splits option.splits)

lemma scan_jars_disk: "snd (scan_jars env jar_files all_results d) = d"
proof (induction jar_files arbitrary: all_results)
  case Nil
  then show ?case by simp
next
  case (Cons jar_file jar_files)
  obtain lfs msgs d' where f: "find_language_files_in_jar env d jar_file = ((lfs, msgs), d')"
    by (metis prod.exhaust)
  with find_language_files_in_jar_disk [of env d jar_file] have "d' = d" by simp
  with f Cons.IH show ?case by simp
qed

text \<open>
  Claim C10. The discovery scan leaves the disk as it found it: every path holds the
  file it held before, so no archive is modified and no file is created. \<open>main\<close> then
  leaves the disk unchanged as well, or writes the report file and nothing else, and
  the latter only when the scan found something and the answer was \<open>y\<close>.
\<close>

theorem discovery_scan_changes_nothing:
  "snd (find_language_files_in_jar env d jar_path) = d \<and>
   snd (scan_directory_for_mods env directory d) = d \<and>
   (main env directory answer written d = d \<or>
    main env directory answer written d = d(output_file \<mapsto> NotZip written) \<and>
    fst (scan_directory_for_mods env directory d) \<noteq> [] \<and>
    py_lower (py_strip answer) = str ''y'')"
proof -
  have scan: "snd (scan_directory_for_mods env directory d) = d"
    by (simp add: scan_directory_for_mods_def scan_jars_disk split: option.splits)
  obtain results d' where r: "scan_directory_for_mods env directory d = (results, d')"
    by (metis prod.exhaust)
  with scan have "d' = d" by simp
  with r have "main env directory answer written d = d \<or>
    main env directory answer written d = d(output_file \<mapsto> NotZip written) \<and>
    fst (scan_directory_for_mods env directory d) \<noteq> [] \<and>
    py_lower (py_strip answer) = str ''y''"
    by (simp add: main_def Let_def)
  with scan find_language_files_in_jar_disk [of env d jar_path] show ?thesis by simp
qed

end
